theory Spec2Isabelle
  imports Main
begin

section \<open>Error relocation: packages/utils/src/errors.ts\<close>

subsection \<open>Execution errors\<close>

text \<open>
  A path is a \<^verbatim>\<open>ReadonlyArray<string | number>\<close>. The numbers of a response path are
  list indices, so a numeric segment is a natural number.
\<close>

datatype segment = Name string | Index nat

text \<open>
  An AST node carries an optional \<^verbatim>\<open>loc\<close>, with the \<^verbatim>\<open>start\<close> offset and the
  \<^verbatim>\<open>source\<close> it was parsed from; the rest of the node is opaque. A source is opaque
  too.
\<close>

record 's Location =
  loc_start :: nat
  loc_source :: 's

record ('n, 's) ASTNode =
  node_content :: 'n
  loc :: "'s Location option"

text \<open>
  \<open>GetLocation source position\<close> stands for the line and column that the library's
  \<^verbatim>\<open>getLocation(source, position)\<close> computes: equal arguments give equal locations.
\<close>

datatype 's SourceLocation = GetLocation 's nat

text \<open>
  The error that a \<^verbatim>\<open>GraphQLError\<close> wraps: opaque, but for its
  \<^verbatim>\<open>extensions\<close> property, which is \<open>Some\<close> when it is object-like
  (\<^verbatim>\<open>isObjectLike\<close>) and \<open>None\<close> otherwise.
\<close>

record ('o, 'x) WrappedError =
  wrapped :: 'o
  wrapped_extensions :: "'x option"

text \<open>
  The fields of a \<^verbatim>\<open>GraphQLError\<close>. The class belongs to the graphql library
  (version 15.3.0, src/error/GraphQLError.js), which defines every field but the message
  as read-only. An absent (\<^verbatim>\<open>undefined\<close>) value is \<open>None\<close>.
\<close>

record ('n, 's, 'o, 'x) GraphQLError =
  message :: string
  locations :: "'s SourceLocation list option"
  path :: "segment list option"
  nodes :: "('n, 's) ASTNode list option"
  source :: "'s option"
  positions :: "nat list option"
  originalError :: "('o, 'x) WrappedError option"
  extensions :: "'x option"

text \<open>
  The \<^verbatim>\<open>nodes\<close> argument of the constructor: absent, one node, or an array of nodes.
\<close>

datatype ('n, 's) nodesArg =
    NoNodes
  | OneNode "('n, 's) ASTNode"
  | NodeArray "('n, 's) ASTNode list"

text \<open>
  The two \<^verbatim>\<open>reduce\<close> loops of the constructor over the nodes: the start offsets,
  and the locations, of the nodes that have a \<^verbatim>\<open>loc\<close>.
\<close>

fun nodePositions :: "('n, 's) ASTNode list \<Rightarrow> nat list" where
  "nodePositions [] = []"
| "nodePositions (n # ns) =
     (case loc n of
        Some l \<Rightarrow> loc_start l # nodePositions ns
      | None \<Rightarrow> nodePositions ns)"

fun nodeLocations :: "('n, 's) ASTNode list \<Rightarrow> 's SourceLocation list" where
  "nodeLocations [] = []"
| "nodeLocations (n # ns) =
     (case loc n of
        Some l \<Rightarrow> GetLocation (loc_source l) (loc_start l) # nodeLocations ns
      | None \<Rightarrow> nodeLocations ns)"

text \<open>
  \<^verbatim>\<open>new GraphQLError(message, nodes, source, positions, path, originalError, extensions)\<close>,
  after the constructor of graphql 15.3.0, step by step: an empty array of nodes counts
  as no nodes and a single node as an array of one; a missing source is taken from the
  first node; missing positions are taken from the nodes, and an empty array of
  positions becomes \<^verbatim>\<open>undefined\<close>; the locations are computed from the
  \<^verbatim>\<open>positions\<close> and \<^verbatim>\<open>source\<close> arguments when both are given and from the nodes
  otherwise; missing extensions are taken from the wrapped error. An array, also an
  empty one, and a source are truthy.
\<close>

definition blameNodes :: "('n, 's) nodesArg \<Rightarrow> ('n, 's) ASTNode list option" where
  "blameNodes nodesA =
     (case nodesA of
        NodeArray ns \<Rightarrow> if ns \<noteq> [] then Some ns else None
      | OneNode n \<Rightarrow> Some [n]
      | NoNodes \<Rightarrow> None)"

definition new_GraphQLError ::
  "string \<Rightarrow> ('n, 's) nodesArg \<Rightarrow> 's option \<Rightarrow> nat list option \<Rightarrow> segment list option
    \<Rightarrow> ('o, 'x) WrappedError option \<Rightarrow> 'x option \<Rightarrow> ('n, 's, 'o, 'x) GraphQLError" where
  "new_GraphQLError msg nodesA src ps pth orig exts =
     (let nodes' = blameNodes nodesA;
          source' =
            (case src of
               Some s \<Rightarrow> Some s
             | None \<Rightarrow>
                 (case nodes' of
                    Some (n # _) \<Rightarrow> map_option loc_source (loc n)
                  | _ \<Rightarrow> None));
          positions0 =
            (case ps of
               Some p \<Rightarrow> Some p
             | None \<Rightarrow> map_option nodePositions nodes');
          positions' = (case positions0 of Some [] \<Rightarrow> None | _ \<Rightarrow> positions0);
          locations' =
            (case (ps, src) of
               (Some p, Some s) \<Rightarrow> Some (map (GetLocation s) p)
             | _ \<Rightarrow> map_option nodeLocations nodes');
          extensions' =
            (case exts of
               Some x \<Rightarrow> Some x
             | None \<Rightarrow>
                 (case orig of
                    Some w \<Rightarrow> wrapped_extensions w
                  | None \<Rightarrow> None))
      in \<lparr>message = msg, locations = locations', path = pth, nodes = nodes',
          source = source', positions = positions', originalError = orig,
          extensions = extensions'\<rparr>)"

text \<open>
  The optional parameter \<^verbatim>\<open>path?: ReadonlyArray<string | number>\<close> of
  \<^verbatim>\<open>relocatedError\<close>: omitted (\<^verbatim>\<open>undefined\<close>), \<^verbatim>\<open>null\<close>, or an array.
\<close>

datatype pathArg = Undefined | Null | Path "segment list"

text \<open>
  The \<^verbatim>\<open>nodes\<close> field of an error is \<^verbatim>\<open>undefined\<close> or an array, and is passed
  as such.
\<close>

definition relocatedError ::
  "('n, 's, 'o, 'x) GraphQLError \<Rightarrow> pathArg \<Rightarrow> ('n, 's, 'o, 'x) GraphQLError" where
  "relocatedError originalErr pathA =
     new_GraphQLError
       (message originalErr)
       (case nodes originalErr of None \<Rightarrow> NoNodes | Some ns \<Rightarrow> NodeArray ns)
       (source originalErr)
       (positions originalErr)
       (case pathA of Null \<Rightarrow> None | Undefined \<Rightarrow> path originalErr | Path p \<Rightarrow> Some p)
       (originalError originalErr)
       (extensions originalErr)"

text \<open>
  Objects live in a store; a reference is an index into it. \<^verbatim>\<open>new\<close> allocates the
  next free reference, so \<^verbatim>\<open>relocatedError\<close> on a reference returns a fresh
  reference and the store extended with the new error.
\<close>

type_synonym ('n, 's, 'o, 'x) errorStore = "('n, 's, 'o, 'x) GraphQLError list"

definition relocatedError_ref ::
  "('n, 's, 'o, 'x) errorStore \<Rightarrow> nat \<Rightarrow> pathArg \<Rightarrow> nat \<times> ('n, 's, 'o, 'x) errorStore" where
  "relocatedError_ref store ref pathA =
     (length store, store @ [relocatedError (store ! ref) pathA])"

definition slicedError :: "('n, 's, 'o, 'x) GraphQLError \<Rightarrow> ('n, 's, 'o, 'x) GraphQLError" where
  "slicedError originalErr =
     relocatedError originalErr
       (case path originalErr of Some p \<Rightarrow> Path (drop 1 p) | None \<Rightarrow> Undefined)"

subsection \<open>Grouping by path segment\<close>

text \<open>
  A property key is a string: a numeric key is converted to its decimal digits, so the
  segments \<open>Index 1\<close> and \<open>Name ''1''\<close> name the same property.
\<close>

definition digit :: "nat \<Rightarrow> char" where
  "digit d = ''0123456789'' ! d"

fun decimal :: "nat \<Rightarrow> string" where
  "decimal n = (if n < 10 then [digit n] else decimal (n div 10) @ [digit (n mod 10)])"

declare decimal.simps [simp del]

fun propertyKey :: "segment \<Rightarrow> string" where
  "propertyKey (Name s) = s"
| "propertyKey (Index n) = decimal n"

text \<open>
  The callback of \<^verbatim>\<open>errors.forEach\<close> in \<^verbatim>\<open>getErrorsByPathSegment\<close>. The record is
  created by \<^verbatim>\<open>Object.create(null)\<close>: it has no inherited properties, so it is a map
  from property keys to lists of errors.
\<close>

definition addErrorByPathSegment ::
  "('n, 's, 'o, 'x) GraphQLError \<Rightarrow> (string \<rightharpoonup> ('n, 's, 'o, 'x) GraphQLError list)
    \<Rightarrow> (string \<rightharpoonup> ('n, 's, 'o, 'x) GraphQLError list)" where
  "addErrorByPathSegment err record =
     (case path err of
        None \<Rightarrow> record
      | Some p \<Rightarrow>
          if length p < 2 then record
          else
            let pathSegment = propertyKey (p ! 1);
                current = (case record pathSegment of Some c \<Rightarrow> c | None \<Rightarrow> [])
            in record(pathSegment \<mapsto> current @ [slicedError err]))"

definition getErrorsByPathSegment ::
  "('n, 's, 'o, 'x) GraphQLError list \<Rightarrow> (string \<rightharpoonup> ('n, 's, 'o, 'x) GraphQLError list)" where
  "getErrorsByPathSegment errors = fold addErrorByPathSegment errors Map.empty"

text \<open>
  The key an error is filed under, if it is retained: read off the callback above, for
  stating what the loop computes.
\<close>

definition groupKey :: "('n, 's, 'o, 'x) GraphQLError \<Rightarrow> string option" where
  "groupKey err =
     (case path err of
        None \<Rightarrow> None
      | Some p \<Rightarrow> if length p < 2 then None else Some (propertyKey (p ! 1)))"

subsection \<open>The side channel\<close>

text \<open>
  A result is \<^verbatim>\<open>any\<close> value: \<^verbatim>\<open>undefined\<close>, \<^verbatim>\<open>null\<close>, a primitive, or an object
  with its visible (string-keyed) fields and the slot of the property keyed by
  \<^verbatim>\<open>ERROR_SYMBOL\<close>, which only \<^verbatim>\<open>setErrors\<close> writes.
\<close>

datatype jsError = TypeError | Error string

datatype ('v, 'e) result =
    RUndefined
  | RNull
  | RPrimitive 'v
  | RObject "string \<rightharpoonup> 'v" "'e list option"

fun visibleFields :: "('v, 'e) result \<Rightarrow> (string \<rightharpoonup> 'v)" where
  "visibleFields (RObject fs slot) = fs"
| "visibleFields _ = Map.empty"

fun errorSlot :: "('v, 'e) result \<Rightarrow> 'e list option" where
  "errorSlot (RObject fs slot) = slot"
| "errorSlot _ = None"

text \<open>
  \<^verbatim>\<open>result[ERROR_SYMBOL] = errors\<close> updates the object in place; the model returns the
  updated result. The module is strict code: the assignment throws a TypeError on
  \<^verbatim>\<open>undefined\<close>, \<^verbatim>\<open>null\<close> and primitives.
\<close>

fun setErrors :: "('v, 'e) result \<Rightarrow> 'e list \<Rightarrow> jsError + ('v, 'e) result" where
  "setErrors (RObject fs slot) errors = Inr (RObject fs (Some errors))"
| "setErrors _ errors = Inl TypeError"

text \<open>The test of the loop body: \<^verbatim>\<open>!error.path || error.path[0] === pathSegment\<close>.\<close>

definition appliesTo :: "('n, 's, 'o, 'x) GraphQLError \<Rightarrow> string \<Rightarrow> bool" where
  "appliesTo err pathSegment =
     (case path err of
        None \<Rightarrow> True
      | Some [] \<Rightarrow> False
      | Some (s # _) \<Rightarrow> s = Name pathSegment)"

fun getErrors_loop ::
  "('n, 's, 'o, 'x) GraphQLError list \<Rightarrow> string \<Rightarrow> ('n, 's, 'o, 'x) GraphQLError list
    \<Rightarrow> ('n, 's, 'o, 'x) GraphQLError list" where
  "getErrors_loop [] pathSegment fieldErrors = fieldErrors"
| "getErrors_loop (err # errors) pathSegment fieldErrors =
     getErrors_loop errors pathSegment
       (if appliesTo err pathSegment then fieldErrors @ [err] else fieldErrors)"

text \<open>\<open>None\<close> is the \<^verbatim>\<open>null\<close> that \<^verbatim>\<open>getErrors\<close> returns.\<close>

definition getErrors ::
  "('v, ('n, 's, 'o, 'x) GraphQLError) result \<Rightarrow> string
    \<Rightarrow> ('n, 's, 'o, 'x) GraphQLError list option" where
  "getErrors res pathSegment =
     (case errorSlot res of
        None \<Rightarrow> None
      | Some errors \<Rightarrow> Some (getErrors_loop errors pathSegment []))"

section \<open>Type candidates: packages/stitch/src/typeCandidates.ts\<close>

subsection \<open>Root operation type names\<close>

datatype OperationType = Query | Mutation | Subscription

text \<open>
  An \<^verbatim>\<open>OperationTypeDefinitionNode\<close>: its \<^verbatim>\<open>operation\<close> and the
  \<^verbatim>\<open>type.name.value\<close> it names.
\<close>

record OperationTypeDefinitionNode =
  operation :: OperationType
  type_name_value :: string

text \<open>
  A \<^verbatim>\<open>SchemaDefinitionNode\<close> or \<^verbatim>\<open>SchemaExtensionNode\<close>: the code reads only its
  \<^verbatim>\<open>operationTypes\<close>, which may be absent.
\<close>

record SchemaNode =
  operationTypes :: "OperationTypeDefinitionNode list option"

record schemaDefs =
  schemaDef :: "SchemaNode option"
  schemaExtensions :: "SchemaNode list"

text \<open>The inner and the outer \<^verbatim>\<open>forEach\<close> callbacks of \<^verbatim>\<open>setOperationTypeNames\<close>.\<close>

definition setOperationTypeName ::
  "OperationTypeDefinitionNode \<Rightarrow> (OperationType \<rightharpoonup> string) \<Rightarrow> (OperationType \<rightharpoonup> string)" where
  "setOperationTypeName operationType operationTypeNames =
     operationTypeNames(operation operationType \<mapsto> type_name_value operationType)"

definition setNodeOperationTypeNames ::
  "SchemaNode \<Rightarrow> (OperationType \<rightharpoonup> string) \<Rightarrow> (OperationType \<rightharpoonup> string)" where
  "setNodeOperationTypeNames node operationTypeNames =
     (case operationTypes node of
        None \<Rightarrow> operationTypeNames
      | Some ots \<Rightarrow> fold setOperationTypeName ots operationTypeNames)"

text \<open>
  \<^verbatim>\<open>operationTypeNames\<close> is updated in place; the model returns the updated map.
\<close>

definition setOperationTypeNames ::
  "schemaDefs \<Rightarrow> (OperationType \<rightharpoonup> string) \<Rightarrow> (OperationType \<rightharpoonup> string)" where
  "setOperationTypeNames defs operationTypeNames =
     (let allNodes =
        (case schemaDef defs of
           None \<Rightarrow> schemaExtensions defs
         | Some d \<Rightarrow> d # schemaExtensions defs)
      in fold setNodeOperationTypeNames allNodes operationTypeNames)"

text \<open>
  The name that a list of nodes, read in order, assigns last to an operation, if any:
  for stating what \<^verbatim>\<open>setOperationTypeNames\<close> records.
\<close>

definition assignments :: "SchemaNode list \<Rightarrow> OperationTypeDefinitionNode list" where
  "assignments ns =
     concat (map (\<lambda>node. case operationTypes node of None \<Rightarrow> [] | Some ots \<Rightarrow> ots) ns)"

definition lastAssigned :: "OperationType \<Rightarrow> SchemaNode list \<Rightarrow> string option" where
  "lastAssigned opr ns =
     (case filter (\<lambda>ot. operation ot = opr) (rev (assignments ns)) of
        [] \<Rightarrow> None
      | ot # _ \<Rightarrow> Some (type_name_value ot))"

subsection \<open>Merge or select\<close>

text \<open>
  A \<^verbatim>\<open>MergeTypeCandidate\<close>. Types are objects compared by reference (\<^verbatim>\<open>===\<close>): the
  type parameter \<open>'t\<close> is the type of these references. An absent optional field is
  \<open>None\<close>.
\<close>

record ('t, 'sub, 'sch) MergeTypeCandidate =
  ctype :: 't
  schemaName :: "string option"
  subschema :: "'sub option"
  transformedSchema :: "'sch option"

text \<open>The third argument of the conflict callback.\<close>

record 'sch conflictInfo =
  left_schema :: "'sch option"
  right_schema :: "'sch option"

type_synonym ('t, 'sch) OnTypeConflict = "'t \<Rightarrow> 't \<Rightarrow> 'sch conflictInfo \<Rightarrow> 't"

text \<open>\<^verbatim>\<open>mergeTypes: boolean | Array<string> | MergeTypeFilter\<close>.\<close>

datatype ('t, 'sub, 'sch) mergeTypes =
    MergeBool bool
  | MergeList "string list"
  | MergeFilter "('t, 'sub, 'sch) MergeTypeCandidate list \<Rightarrow> string \<Rightarrow> bool"

record 'mi StitchingInfo =
  mergedTypes :: "string \<rightharpoonup> 'mi"

text \<open>
  \<^verbatim>\<open>Array.prototype.reduce\<close> without an initial value: a TypeError on an empty array,
  otherwise the fold from the first element over the rest.
\<close>

fun reduce :: "('a \<Rightarrow> 'a \<Rightarrow> 'a) \<Rightarrow> 'a list \<Rightarrow> jsError + 'a" where
  "reduce f [] = Inl TypeError"
| "reduce f (x # xs) = Inr (foldl f x xs)"

text \<open>The callback that \<^verbatim>\<open>onTypeConflictToCandidateSelector\<close> reduces with.\<close>

definition conflictStep ::
  "('t, 'sch) OnTypeConflict \<Rightarrow> ('t, 'sub, 'sch) MergeTypeCandidate
    \<Rightarrow> ('t, 'sub, 'sch) MergeTypeCandidate \<Rightarrow> ('t, 'sub, 'sch) MergeTypeCandidate" where
  "conflictStep onTypeConflict prev nxt =
     (let ty = onTypeConflict (ctype prev) (ctype nxt)
                 \<lparr>left_schema = transformedSchema prev, right_schema = transformedSchema nxt\<rparr>
      in if ctype prev = ty then prev
         else if ctype nxt = ty then nxt
         else \<lparr>ctype = ty, schemaName = Some ''unknown'', subschema = None,
               transformedSchema = None\<rparr>)"

definition onTypeConflictToCandidateSelector ::
  "('t, 'sch) OnTypeConflict \<Rightarrow> ('t, 'sub, 'sch) MergeTypeCandidate list
    \<Rightarrow> jsError + ('t, 'sub, 'sch) MergeTypeCandidate" where
  "onTypeConflictToCandidateSelector onTypeConflict cands =
     reduce (conflictStep onTypeConflict) cands"

text \<open>
  The default selector \<^verbatim>\<open>cands => cands[cands.length - 1]\<close> returns
  \<^verbatim>\<open>undefined\<close> on an empty array, and reading \<^verbatim>\<open>.type\<close> of that throws a
  TypeError.
\<close>

definition lastCandidate ::
  "('t, 'sub, 'sch) MergeTypeCandidate list \<Rightarrow> jsError + ('t, 'sub, 'sch) MergeTypeCandidate" where
  "lastCandidate cands = (if cands = [] then Inl TypeError else Inr (last cands))"

text \<open>The condition of the \<^verbatim>\<open>if\<close> in \<^verbatim>\<open>buildTypeMap\<close>, disjunct by disjunct.\<close>

definition shouldMerge ::
  "('t \<Rightarrow> bool) \<Rightarrow> 'mi StitchingInfo option \<Rightarrow> (OperationType \<rightharpoonup> string)
    \<Rightarrow> ('t, 'sub, 'sch) mergeTypes \<Rightarrow> string \<Rightarrow> ('t, 'sub, 'sch) MergeTypeCandidate list
    \<Rightarrow> bool" where
  "shouldMerge isSpecifiedScalarType stitchingInfo operationTypeNames mergeTys typeName cands =
     (operationTypeNames Query = Some typeName \<or>
      operationTypeNames Mutation = Some typeName \<or>
      operationTypeNames Subscription = Some typeName \<or>
      (mergeTys = MergeBool True \<and>
         \<not> list_ex (\<lambda>candidate. isSpecifiedScalarType (ctype candidate)) cands) \<or>
      (case mergeTys of MergeFilter f \<Rightarrow> f cands typeName | _ \<Rightarrow> False) \<or>
      (case mergeTys of MergeList names \<Rightarrow> typeName \<in> set names | _ \<Rightarrow> False) \<or>
      (case stitchingInfo of
         None \<Rightarrow> False
       | Some info \<Rightarrow> mergedTypes info typeName \<noteq> None))"

text \<open>
  The \<^verbatim>\<open>else\<close> branch: the selector, then \<^verbatim>\<open>.type\<close> of the candidate it returns.
\<close>

definition selectType ::
  "('t, 'sch) OnTypeConflict option \<Rightarrow> ('t, 'sub, 'sch) MergeTypeCandidate list
    \<Rightarrow> jsError + 't" where
  "selectType onTypeConflict cands =
     (let candidateSelector =
        (case onTypeConflict of
           Some f \<Rightarrow> onTypeConflictToCandidateSelector f
         | None \<Rightarrow> lastCandidate)
      in case candidateSelector cands of
           Inl e \<Rightarrow> Inl e
         | Inr c \<Rightarrow> Inr (ctype c))"

text \<open>
  The value that the body of the \<^verbatim>\<open>forEach\<close> in \<^verbatim>\<open>buildTypeMap\<close> stores under
  \<open>typeName\<close>. \<^verbatim>\<open>mergeCandidates\<close> (mergeCandidates.ts) and
  \<^verbatim>\<open>isSpecifiedScalarType\<close> (graphql) are parameters; \<^verbatim>\<open>mergeCandidates\<close> may
  throw.
\<close>

definition composeType ::
  "(string \<Rightarrow> ('t, 'sub, 'sch) MergeTypeCandidate list \<Rightarrow> 'opts \<Rightarrow> jsError + 't)
    \<Rightarrow> ('t \<Rightarrow> bool) \<Rightarrow> 'mi StitchingInfo option \<Rightarrow> (OperationType \<rightharpoonup> string)
    \<Rightarrow> ('t, 'sch) OnTypeConflict option \<Rightarrow> ('t, 'sub, 'sch) mergeTypes \<Rightarrow> 'opts
    \<Rightarrow> string \<Rightarrow> ('t, 'sub, 'sch) MergeTypeCandidate list \<Rightarrow> jsError + 't" where
  "composeType mergeCandidates isSpecifiedScalarType stitchingInfo operationTypeNames
       onTypeConflict mergeTys typeMergingOptions typeName cands =
     (if shouldMerge isSpecifiedScalarType stitchingInfo operationTypeNames mergeTys typeName cands
      then mergeCandidates typeName cands typeMergingOptions
      else selectType onTypeConflict cands)"

text \<open>
  \<^verbatim>\<open>typeCandidates\<close> is a record read in key order: the list of its entries, with
  distinct keys. The loop stops at the first exception.
\<close>

fun buildTypeMap_loop ::
  "(string \<Rightarrow> ('t, 'sub, 'sch) MergeTypeCandidate list \<Rightarrow> 'opts \<Rightarrow> jsError + 't)
    \<Rightarrow> ('t \<Rightarrow> bool) \<Rightarrow> 'mi StitchingInfo option \<Rightarrow> (OperationType \<rightharpoonup> string)
    \<Rightarrow> ('t, 'sch) OnTypeConflict option \<Rightarrow> ('t, 'sub, 'sch) mergeTypes \<Rightarrow> 'opts
    \<Rightarrow> (string \<times> ('t, 'sub, 'sch) MergeTypeCandidate list) list
    \<Rightarrow> (string \<rightharpoonup> 't) \<Rightarrow> jsError + (string \<rightharpoonup> 't)" where
  "buildTypeMap_loop mc iss si otn otc mt opts [] typeMap = Inr typeMap"
| "buildTypeMap_loop mc iss si otn otc mt opts ((typeName, cands) # rest) typeMap =
     (case composeType mc iss si otn otc mt opts typeName cands of
        Inl e \<Rightarrow> Inl e
      | Inr ty \<Rightarrow> buildTypeMap_loop mc iss si otn otc mt opts rest (typeMap(typeName \<mapsto> ty)))"

definition buildTypeMap ::
  "(string \<Rightarrow> ('t, 'sub, 'sch) MergeTypeCandidate list \<Rightarrow> 'opts \<Rightarrow> jsError + 't)
    \<Rightarrow> ('t \<Rightarrow> bool) \<Rightarrow> (string \<times> ('t, 'sub, 'sch) MergeTypeCandidate list) list
    \<Rightarrow> 'mi StitchingInfo option \<Rightarrow> (OperationType \<rightharpoonup> string)
    \<Rightarrow> ('t, 'sch) OnTypeConflict option \<Rightarrow> ('t, 'sub, 'sch) mergeTypes \<Rightarrow> 'opts
    \<Rightarrow> jsError + (string \<rightharpoonup> 't)" where
  "buildTypeMap mergeCandidates isSpecifiedScalarType typeCandidates stitchingInfo
       operationTypeNames onTypeConflict mergeTys typeMergingOptions =
     buildTypeMap_loop mergeCandidates isSpecifiedScalarType stitchingInfo operationTypeNames
       onTypeConflict mergeTys typeMergingOptions typeCandidates Map.empty"

section \<open>Type wrapping: the WrapType transform\<close>

text \<open>
  A \<^verbatim>\<open>Transform\<close> object: its three methods. A method may update the transform's own
  fields and the contexts it is given, so each method is a function from the state of
  the program (\<open>'w\<close>) to its return value and the new state.
\<close>

record ('schema, 'cfg, 'req, 'res, 'dctx, 'tctx, 'w) Transform =
  transformSchema :: "'schema \<Rightarrow> 'cfg \<Rightarrow> 'w \<Rightarrow> 'schema \<times> 'w"
  transformRequest :: "'req \<Rightarrow> 'dctx \<Rightarrow> 'tctx \<Rightarrow> 'w \<Rightarrow> 'req \<times> 'w"
  transformResult :: "'res \<Rightarrow> 'dctx \<Rightarrow> 'tctx \<Rightarrow> 'w \<Rightarrow> 'res \<times> 'w"

text \<open>
  The class \<^verbatim>\<open>WrapType\<close>: one private field. The class \<^verbatim>\<open>WrapFields\<close>
  (WrapFields.ts) is a parameter: its constructor, from the outer type name, the field
  names and the wrapping type names to a transform.
\<close>

record ('schema, 'cfg, 'req, 'res, 'dctx, 'tctx, 'w) WrapType =
  transformer :: "('schema, 'cfg, 'req, 'res, 'dctx, 'tctx, 'w) Transform"

definition new_WrapType ::
  "(string \<Rightarrow> string list \<Rightarrow> string list \<Rightarrow> ('schema, 'cfg, 'req, 'res, 'dctx, 'tctx, 'w) Transform)
    \<Rightarrow> string \<Rightarrow> string \<Rightarrow> string \<Rightarrow> ('schema, 'cfg, 'req, 'res, 'dctx, 'tctx, 'w) WrapType" where
  "new_WrapType WrapFields outerTypeName innerTypeName fieldName =
     \<lparr>transformer = WrapFields outerTypeName [fieldName] [innerTypeName]\<rparr>"

definition WrapType_transformSchema ::
  "('schema, 'cfg, 'req, 'res, 'dctx, 'tctx, 'w) WrapType
    \<Rightarrow> 'schema \<Rightarrow> 'cfg \<Rightarrow> 'w \<Rightarrow> 'schema \<times> 'w" where
  "WrapType_transformSchema this originalWrappingSchema subschemaConfig =
     transformSchema (transformer this) originalWrappingSchema subschemaConfig"

definition WrapType_transformRequest ::
  "('schema, 'cfg, 'req, 'res, 'dctx, 'tctx, 'w) WrapType
    \<Rightarrow> 'req \<Rightarrow> 'dctx \<Rightarrow> 'tctx \<Rightarrow> 'w \<Rightarrow> 'req \<times> 'w" where
  "WrapType_transformRequest this originalRequest delegationContext transformationContext =
     transformRequest (transformer this) originalRequest delegationContext transformationContext"

definition WrapType_transformResult ::
  "('schema, 'cfg, 'req, 'res, 'dctx, 'tctx, 'w) WrapType
    \<Rightarrow> 'res \<Rightarrow> 'dctx \<Rightarrow> 'tctx \<Rightarrow> 'w \<Rightarrow> 'res \<times> 'w" where
  "WrapType_transformResult this originalResult delegationContext transformationContext =
     transformResult (transformer this) originalResult delegationContext transformationContext"

section \<open>Sample values\<close>

text \<open>An error with a message and a path and nothing else, as
  \<^verbatim>\<open>new GraphQLError(message, undefined, undefined, undefined, path)\<close> constructs it.\<close>

abbreviation mkError :: "string \<Rightarrow> segment list option \<Rightarrow> (unit, unit, unit, unit) GraphQLError" where
  "mkError msg p \<equiv>
     \<lparr>message = msg, locations = None, path = p, nodes = None, source = None,
      positions = None, originalError = None, extensions = None\<rparr>"

text \<open>
  An error constructed from one AST node located at offset 7 of the source, with no
  source and no positions given; and an error constructed from a source and an array of
  positions, with no nodes.
\<close>

abbreviation nodeError :: "(unit, unit, unit, unit) GraphQLError" where
  "nodeError \<equiv>
     new_GraphQLError ''boom''
       (OneNode \<lparr>node_content = (), loc = Some \<lparr>loc_start = 7, loc_source = ()\<rparr>\<rparr>)
       None None (Some [Name ''a'']) None None"

abbreviation positionsError :: "nat list \<Rightarrow> (unit, unit, unit, unit) GraphQLError" where
  "positionsError p \<equiv>
     new_GraphQLError ''boom'' NoNodes (Some ()) (Some p) (Some [Name ''a'']) None None"

text \<open>
  The conventional root names, and a schema node that assigns the given names to the
  given operations.
\<close>

abbreviation defaultNames :: "OperationType \<rightharpoonup> string" where
  "defaultNames \<equiv> [Query \<mapsto> ''Query'', Mutation \<mapsto> ''Mutation'', Subscription \<mapsto> ''Subscription'']"

abbreviation opType :: "OperationType \<Rightarrow> string \<Rightarrow> OperationTypeDefinitionNode" where
  "opType opr n \<equiv> \<lparr>operation = opr, type_name_value = n\<rparr>"

abbreviation opNode :: "OperationTypeDefinitionNode list \<Rightarrow> SchemaNode" where
  "opNode ots \<equiv> \<lparr>operationTypes = Some ots\<rparr>"

text \<open>
  A candidate contributed by a named subschema (types are numbered; 0 is the built-in
  scalar of the samples), a stand-in for \<^verbatim>\<open>mergeCandidates\<close> that never throws,
  and a table of candidates.
\<close>

abbreviation cand :: "nat \<Rightarrow> string \<Rightarrow> (nat, string, string) MergeTypeCandidate" where
  "cand ty s \<equiv> \<lparr>ctype = ty, schemaName = None, subschema = Some s, transformedSchema = Some s\<rparr>"

abbreviation mergeToSum ::
  "string \<Rightarrow> (nat, string, string) MergeTypeCandidate list \<Rightarrow> unit \<Rightarrow> jsError + nat" where
  "mergeToSum \<equiv> (\<lambda>typeName cands opts. Inr (100 + sum_list (map ctype cands)))"

abbreviation sampleCandidates ::
  "(string \<times> (nat, string, string) MergeTypeCandidate list) list" where
  "sampleCandidates \<equiv>
     [(''Query'', [cand 1 ''a'', cand 2 ''b'']),
      (''User'', [cand 3 ''a'', cand 4 ''b'', cand 5 ''c'']),
      (''Widget'', [cand 6 ''b'']),
      (''String'', [cand 0 ''a'', cand 0 ''b''])]"

section \<open>Properties of the error relocator\<close>

subsection \<open>Auxiliary facts\<close>

lemma getErrors_loop_filter:
  "getErrors_loop errors seg acc = acc @ filter (\<lambda>e. appliesTo e seg) errors"
  by (induction errors arbitrary: acc) auto

lemma appliesTo_iff:
  "appliesTo e seg \<longleftrightarrow> path e = None \<or> (\<exists>rest. path e = Some (Name seg # rest))"
  by (auto simp: appliesTo_def split: option.splits list.splits)

lemma addErrorByPathSegment_other:
  "groupKey e \<noteq> Some k \<Longrightarrow> addErrorByPathSegment e r k = r k"
  by (auto simp: addErrorByPathSegment_def groupKey_def Let_def split: option.splits)

lemma addErrorByPathSegment_same:
  "groupKey e = Some k \<Longrightarrow>
     addErrorByPathSegment e r k =
       Some ((case r k of Some c \<Rightarrow> c | None \<Rightarrow> []) @ [slicedError e])"
  by (auto simp: addErrorByPathSegment_def groupKey_def Let_def split: option.splits if_splits)

lemma fold_addErrorByPathSegment:
  "fold addErrorByPathSegment errors r k =
     (case (case r k of Some c \<Rightarrow> c | None \<Rightarrow> []) @
           map slicedError (filter (\<lambda>e. groupKey e = Some k) errors) of
        [] \<Rightarrow> r k
      | es \<Rightarrow> Some es)"
proof (induction errors arbitrary: r)
  case Nil
  show ?case by (cases "r k") (auto split: list.splits)
next
  case (Cons e errors)
  show ?case
  proof (cases "groupKey e = Some k")
    case True
    then show ?thesis
      using Cons.IH [of "addErrorByPathSegment e r"]
      by (simp add: addErrorByPathSegment_same split: option.splits list.splits)
  next
    case False
    then show ?thesis
      using Cons.IH [of "addErrorByPathSegment e r"]
      by (simp add: addErrorByPathSegment_other split: list.splits)
  qed
qed

lemma new_GraphQLError_kept:
  "message (new_GraphQLError msg nodesA src ps pth orig exts) = msg"
  "path (new_GraphQLError msg nodesA src ps pth orig exts) = pth"
  "originalError (new_GraphQLError msg nodesA src ps pth orig exts) = orig"
  by (simp_all add: new_GraphQLError_def Let_def)

lemma relocatedError_kept:
  "message (relocatedError e pathA) = message e"
  "originalError (relocatedError e pathA) = originalError e"
  "path (relocatedError e pathA) =
     (case pathA of Null \<Rightarrow> None | Undefined \<Rightarrow> path e | Path p \<Rightarrow> Some p)"
  by (simp_all add: relocatedError_def new_GraphQLError_kept)

lemma nodeLocations_one_source:
  "\<forall>n \<in> set ns. \<forall>l. loc n = Some l \<longrightarrow> loc_source l = s
     \<Longrightarrow> nodeLocations ns = map (GetLocation s) (nodePositions ns)"
  by (induction ns) (auto split: option.splits)

lemma relocatedError_nodes:
  "nodes (relocatedError (new_GraphQLError msg nodesA src ps pth orig exts) pathA) =
     nodes (new_GraphQLError msg nodesA src ps pth orig exts)"
  by (cases nodesA) (simp_all add: relocatedError_def new_GraphQLError_def Let_def blameNodes_def)

lemma relocatedError_source:
  "source (relocatedError (new_GraphQLError msg nodesA src ps pth orig exts) pathA) =
     source (new_GraphQLError msg nodesA src ps pth orig exts)"
  by (cases nodesA; cases src)
    (auto simp: relocatedError_def new_GraphQLError_def Let_def blameNodes_def
       split: list.splits option.splits)

lemma relocatedError_extensions:
  "extensions (relocatedError (new_GraphQLError msg nodesA src ps pth orig exts) pathA) =
     extensions (new_GraphQLError msg nodesA src ps pth orig exts)"
  by (cases exts; cases orig)
    (simp_all add: relocatedError_def new_GraphQLError_def Let_def split: option.splits)

lemma relocatedError_locations:
  "nodes e \<noteq> Some [] \<Longrightarrow>
   locations (relocatedError e pathA) =
     (case (positions e, source e) of
        (Some p, Some s) \<Rightarrow> Some (map (GetLocation s) p)
      | _ \<Rightarrow> map_option nodeLocations (nodes e))"
  by (cases "nodes e")
    (auto simp: relocatedError_def new_GraphQLError_def Let_def blameNodes_def
       split: option.splits)

lemma new_GraphQLError_nodes_nonempty:
  "nodes (new_GraphQLError msg nodesA src ps pth orig exts) \<noteq> Some []"
  by (cases nodesA) (simp_all add: new_GraphQLError_def Let_def blameNodes_def)

lemma new_GraphQLError_fields:
  "nodes (new_GraphQLError msg nodesA src ps pth orig exts) = blameNodes nodesA"
  "locations (new_GraphQLError msg nodesA src ps pth orig exts) =
     (case (ps, src) of
        (Some p, Some s) \<Rightarrow> Some (map (GetLocation s) p)
      | _ \<Rightarrow> map_option nodeLocations (blameNodes nodesA))"
  "positions (new_GraphQLError msg nodesA src ps pth orig exts) =
     (case ps of
        Some p \<Rightarrow> if p = [] then None else Some p
      | None \<Rightarrow>
          (case blameNodes nodesA of
             None \<Rightarrow> None
           | Some ns \<Rightarrow> if nodePositions ns = [] then None else Some (nodePositions ns)))"
  by (auto simp: new_GraphQLError_def Let_def split: option.splits list.splits)

lemma locations_kept_positions_source:
  assumes "ps = Some p" and "p \<noteq> []" and "src = Some s"
  shows "locations (relocatedError (new_GraphQLError msg nodesA src ps pth orig exts) pathA) =
     locations (new_GraphQLError msg nodesA src ps pth orig exts)"
proof -
  let ?c = "new_GraphQLError msg nodesA src ps pth orig exts"
  from assms have pos: "positions ?c = Some p"
    by (simp add: new_GraphQLError_fields)
  from assms have src: "source ?c = Some s"
    by (simp add: new_GraphQLError_def Let_def)
  from assms have loc: "locations ?c = Some (map (GetLocation s) p)"
    by (simp add: new_GraphQLError_fields)
  show ?thesis
    by (simp add: relocatedError_locations [OF new_GraphQLError_nodes_nonempty] pos src loc)
qed

lemma locations_kept_nodes:
  assumes "ps = None"
    and "\<forall>ns. nodes (new_GraphQLError msg nodesA src ps pth orig exts) = Some ns \<longrightarrow>
           (\<forall>n \<in> set ns. \<forall>l. loc n = Some l \<longrightarrow>
              source (new_GraphQLError msg nodesA src ps pth orig exts) = Some (loc_source l))"
  shows "locations (relocatedError (new_GraphQLError msg nodesA src ps pth orig exts) pathA) =
     locations (new_GraphQLError msg nodesA src ps pth orig exts)"
proof -
  let ?c = "new_GraphQLError msg nodesA src ps pth orig exts"
  have loc: "locations ?c = map_option nodeLocations (nodes ?c)"
    using assms(1) by (simp add: new_GraphQLError_fields)
  have reloc: "locations (relocatedError ?c pathA) =
     (case (positions ?c, source ?c) of
        (Some p, Some s) \<Rightarrow> Some (map (GetLocation s) p)
      | _ \<Rightarrow> map_option nodeLocations (nodes ?c))"
    by (rule relocatedError_locations [OF new_GraphQLError_nodes_nonempty])
  show ?thesis
  proof (cases "positions ?c")
    case None
    then show ?thesis by (simp add: reloc loc)
  next
    case (Some p)
    note pos = this
    show ?thesis
    proof (cases "source ?c")
      case None
      then show ?thesis by (simp add: reloc loc pos)
    next
      case (Some s)
      from pos assms(1) obtain ns where ns: "nodes ?c = Some ns" and p: "p = nodePositions ns"
        by (auto simp: new_GraphQLError_fields split: option.splits if_splits)
      from assms(2) ns Some have "\<forall>n \<in> set ns. \<forall>l. loc n = Some l \<longrightarrow> loc_source l = s"
        by auto
      then have "nodeLocations ns = map (GetLocation s) (nodePositions ns)"
        by (rule nodeLocations_one_source)
      then show ?thesis by (simp add: reloc loc pos Some ns p)
    qed
  qed
qed

lemma slicedError_path: "path (slicedError e) = map_option (drop 1) (path e)"
  by (cases "path e") (simp_all add: slicedError_def relocatedError_kept)

lemma groupKey_iff:
  "groupKey e = Some k \<longleftrightarrow>
     (\<exists>p. path e = Some p \<and> 2 \<le> length p \<and> propertyKey (p ! 1) = k)"
  by (auto simp: groupKey_def split: option.splits)

subsection \<open>Path rewrite\<close>

text \<open>
  Claim C2, as amended. \<^verbatim>\<open>relocatedError\<close> with the path omitted
  (\<^verbatim>\<open>undefined\<close>) returns an error with the original path; with \<^verbatim>\<open>null\<close> it
  returns an error with no path; with the empty array it returns an error whose path is
  the empty array; with any explicit path it returns an error with that path. In every
  case the message and the original error are those of the argument, and so are the
  extensions, the nodes and the source of every error that the constructor has built.
  The locations are not passed on: the constructor computes them again, from the
  positions and the source of the argument when it has both and from its nodes
  otherwise. They are the locations of the argument when it was constructed from a
  non-empty array of positions and a source, and when it was constructed without
  positions and each of its located nodes lies in its source. The result is a newly
  allocated error: the reference returned is not the argument's, and every error
  already in the store, the argument included, is unchanged.
\<close>

theorem relocatedError_path:
  assumes "ref < length store"
  shows
    "path (relocatedError e Undefined) = path e \<and>
     path (relocatedError e Null) = None \<and>
     path (relocatedError e (Path [])) = Some [] \<and>
     path (relocatedError e (Path explicitPath)) = Some explicitPath \<and>
     message (relocatedError e pathA) = message e \<and>
     originalError (relocatedError e pathA) = originalError e \<and>
     (let c = new_GraphQLError msg nodesA src ps pth orig exts in
        extensions (relocatedError c pathA) = extensions c \<and>
        nodes (relocatedError c pathA) = nodes c \<and>
        source (relocatedError c pathA) = source c \<and>
        locations (relocatedError c pathA) =
          (case (positions c, source c) of
             (Some p, Some s) \<Rightarrow> Some (map (GetLocation s) p)
           | _ \<Rightarrow> map_option nodeLocations (nodes c)) \<and>
        ((\<exists>p s. ps = Some p \<and> p \<noteq> [] \<and> src = Some s) \<longrightarrow>
           locations (relocatedError c pathA) = locations c) \<and>
        (ps = None \<and>
           (\<forall>ns. nodes c = Some ns \<longrightarrow>
              (\<forall>n \<in> set ns. \<forall>l. loc n = Some l \<longrightarrow> source c = Some (loc_source l))) \<longrightarrow>
           locations (relocatedError c pathA) = locations c)) \<and>
     (\<exists>ref' store'. relocatedError_ref store ref pathA = (ref', store') \<and>
        ref' \<noteq> ref \<and> length store \<le> ref' \<and>
        store' ! ref' = relocatedError (store ! ref) pathA \<and>
        (\<forall>r < length store. store' ! r = store ! r))"
proof -
  let ?c = "new_GraphQLError msg nodesA src ps pth orig exts"
  have paths: "path (relocatedError e Undefined) = path e"
    "path (relocatedError e Null) = None"
    "path (relocatedError e (Path [])) = Some []"
    "path (relocatedError e (Path explicitPath)) = Some explicitPath"
    by (simp_all add: relocatedError_kept)
  have kept: "message (relocatedError e pathA) = message e"
    "originalError (relocatedError e pathA) = originalError e"
    by (simp_all add: relocatedError_kept)
  have built: "extensions (relocatedError ?c pathA) = extensions ?c"
    "nodes (relocatedError ?c pathA) = nodes ?c"
    "source (relocatedError ?c pathA) = source ?c"
    by (rule relocatedError_extensions relocatedError_nodes relocatedError_source)+
  have recomputed: "locations (relocatedError ?c pathA) =
          (case (positions ?c, source ?c) of
             (Some p, Some s) \<Rightarrow> Some (map (GetLocation s) p)
           | _ \<Rightarrow> map_option nodeLocations (nodes ?c))"
    by (rule relocatedError_locations [OF new_GraphQLError_nodes_nonempty])
  have case1: "(\<exists>p s. ps = Some p \<and> p \<noteq> [] \<and> src = Some s) \<longrightarrow>
      locations (relocatedError ?c pathA) = locations ?c"
  proof
    assume "\<exists>p s. ps = Some p \<and> p \<noteq> [] \<and> src = Some s"
    then obtain p s where "ps = Some p" "p \<noteq> []" "src = Some s" by blast
    then show "locations (relocatedError ?c pathA) = locations ?c"
      by (rule locations_kept_positions_source)
  qed
  have case2: "ps = None \<and>
           (\<forall>ns. nodes ?c = Some ns \<longrightarrow>
              (\<forall>n \<in> set ns. \<forall>l. loc n = Some l \<longrightarrow> source ?c = Some (loc_source l))) \<longrightarrow>
      locations (relocatedError ?c pathA) = locations ?c"
  proof
    assume h: "ps = None \<and>
           (\<forall>ns. nodes ?c = Some ns \<longrightarrow>
              (\<forall>n \<in> set ns. \<forall>l. loc n = Some l \<longrightarrow> source ?c = Some (loc_source l)))"
    then have "ps = None" ..
    moreover from h have "\<forall>ns. nodes ?c = Some ns \<longrightarrow>
              (\<forall>n \<in> set ns. \<forall>l. loc n = Some l \<longrightarrow> source ?c = Some (loc_source l))" ..
    ultimately show "locations (relocatedError ?c pathA) = locations ?c"
      by (rule locations_kept_nodes)
  qed
  have fresh: "\<exists>ref' store'. relocatedError_ref store ref pathA = (ref', store') \<and>
        ref' \<noteq> ref \<and> length store \<le> ref' \<and>
        store' ! ref' = relocatedError (store ! ref) pathA \<and>
        (\<forall>r < length store. store' ! r = store ! r)"
    using assms by (simp add: relocatedError_ref_def nth_append)
  show ?thesis
    unfolding Let_def
    using paths kept built recomputed case1 case2 fresh
    by (intro conjI) assumption+
qed

text \<open>
  The amended C2 at concrete errors: the four paths, the locations kept for an error
  built from a located node and for an error built from two positions and a source, and
  the store with the new error appended.
\<close>

theorem relocatedError_path_witness:
  "path (relocatedError (mkError ''boom'' (Some [Name ''a'', Index 0])) Undefined)
     = Some [Name ''a'', Index 0] \<and>
   path (relocatedError (mkError ''boom'' (Some [Name ''a'', Index 0])) Null) = None \<and>
   path (relocatedError (mkError ''boom'' (Some [Name ''a'', Index 0])) (Path [])) = Some [] \<and>
   path (relocatedError (mkError ''boom'' (Some [Name ''a'', Index 0])) (Path [Name ''b'']))
     = Some [Name ''b''] \<and>
   locations (relocatedError nodeError (Path [Name ''b''])) = Some [GetLocation () 7] \<and>
   locations (relocatedError (positionsError [3, 9]) (Path [Name ''b'']))
     = Some [GetLocation () 3, GetLocation () 9] \<and>
   relocatedError_ref [mkError ''boom'' (Some [Name ''a'', Index 0])] 0 (Path [Name ''b''])
     = (1, [mkError ''boom'' (Some [Name ''a'', Index 0]), mkError ''boom'' (Some [Name ''b''])])"
proof -
  have h: "(0::nat) < length [mkError ''boom'' (Some [Name ''a'', Index 0])]" by simp
  note nodes = relocatedError_path [OF h,
      of "mkError ''boom'' (Some [Name ''a'', Index 0])" "[Name ''b'']" "Path [Name ''b'']"
        "''boom''" "OneNode \<lparr>node_content = (), loc = Some \<lparr>loc_start = 7, loc_source = ()\<rparr>\<rparr>"
        None None "Some [Name ''a'']" None None]
  note positions = relocatedError_path [OF h,
      of "mkError ''boom'' (Some [Name ''a'', Index 0])" "[Name ''b'']" "Path [Name ''b'']"
        "''boom''" NoNodes "Some ()" "Some [3, 9]" "Some [Name ''a'']" None None]
  have "(None :: nat list option) = None \<and>
      (\<forall>ns. nodes nodeError = Some ns \<longrightarrow>
         (\<forall>n \<in> set ns. \<forall>l. loc n = Some l \<longrightarrow> source nodeError = Some (loc_source l))) \<longrightarrow>
      locations (relocatedError nodeError (Path [Name ''b''])) = locations nodeError"
    using nodes unfolding Let_def by (elim conjE) assumption
  moreover have "(None :: nat list option) = None \<and>
      (\<forall>ns. nodes nodeError = Some ns \<longrightarrow>
         (\<forall>n \<in> set ns. \<forall>l. loc n = Some l \<longrightarrow> source nodeError = Some (loc_source l)))"
    by (simp add: new_GraphQLError_def Let_def blameNodes_def)
  ultimately have "locations (relocatedError nodeError (Path [Name ''b''])) = locations nodeError"
    by (rule mp)
  then have one: "locations (relocatedError nodeError (Path [Name ''b''])) = Some [GetLocation () 7]"
    by (simp add: new_GraphQLError_fields blameNodes_def)
  have "(\<exists>p s. Some [3, 9 :: nat] = Some p \<and> p \<noteq> [] \<and> Some () = Some s) \<longrightarrow>
      locations (relocatedError (positionsError [3, 9]) (Path [Name ''b'']))
        = locations (positionsError [3, 9])"
    using positions unfolding Let_def by (elim conjE) assumption
  moreover have "\<exists>p s. Some [3, 9 :: nat] = Some p \<and> p \<noteq> [] \<and> Some () = Some s"
    by simp
  ultimately have "locations (relocatedError (positionsError [3, 9]) (Path [Name ''b'']))
      = locations (positionsError [3, 9])"
    by (rule mp)
  then have two: "locations (relocatedError (positionsError [3, 9]) (Path [Name ''b'']))
     = Some [GetLocation () 3, GetLocation () 9]"
    by (simp add: new_GraphQLError_fields)
  have paths: "path (relocatedError (mkError ''boom'' (Some [Name ''a'', Index 0])) Undefined)
     = Some [Name ''a'', Index 0] \<and>
   path (relocatedError (mkError ''boom'' (Some [Name ''a'', Index 0])) Null) = None \<and>
   path (relocatedError (mkError ''boom'' (Some [Name ''a'', Index 0])) (Path [])) = Some [] \<and>
   path (relocatedError (mkError ''boom'' (Some [Name ''a'', Index 0])) (Path [Name ''b'']))
     = Some [Name ''b'']"
    using nodes unfolding Let_def by (elim conjE) simp
  have store: "relocatedError_ref [mkError ''boom'' (Some [Name ''a'', Index 0])] 0 (Path [Name ''b''])
     = (1, [mkError ''boom'' (Some [Name ''a'', Index 0]), mkError ''boom'' (Some [Name ''b''])])"
    by (simp add: relocatedError_ref_def relocatedError_def new_GraphQLError_def Let_def
        blameNodes_def)
  from paths one two store show ?thesis by simp
qed

text \<open>
  C2 as stated fails twice. With \<^verbatim>\<open>null\<close> the original path is not kept. And the
  locations are not preserved in every case: an error constructed from a source and an
  empty array of positions has the empty array of locations, and the relocated error
  has no locations.
\<close>

theorem relocatedError_null_locations_counterexample:
  "path (relocatedError (mkError ''boom'' (Some [Name ''a'', Index 0])) Null)
     \<noteq> path (mkError ''boom'' (Some [Name ''a'', Index 0])) \<and>
   locations (relocatedError (positionsError []) Undefined) \<noteq> locations (positionsError [])"
  by (simp add: relocatedError_def new_GraphQLError_def Let_def blameNodes_def)

subsection \<open>Group by path segment\<close>

text \<open>
  Claim C1, as amended. \<^verbatim>\<open>getErrorsByPathSegment\<close> files each error under the
  property key of the second element of its path: an error with no path or with fewer
  than two path elements is dropped, and under each key stand, in the order of the
  input, the retained errors with that key, each with its one leading path segment
  stripped and its message kept. A key with no retained error is absent.
\<close>

theorem getErrorsByPathSegment_second_segment:
  "getErrorsByPathSegment errors key =
     (case filter (\<lambda>e. groupKey e = Some key) errors of
        [] \<Rightarrow> None
      | es \<Rightarrow> Some (map slicedError es)) \<and>
   (groupKey e = Some key \<longleftrightarrow>
      (\<exists>p. path e = Some p \<and> 2 \<le> length p \<and> propertyKey (p ! 1) = key)) \<and>
   path (slicedError e) = map_option (drop 1) (path e) \<and>
   message (slicedError e) = message e"
proof -
  have "getErrorsByPathSegment errors key =
     (case filter (\<lambda>e. groupKey e = Some key) errors of
        [] \<Rightarrow> None
      | es \<Rightarrow> Some (map slicedError es))"
    by (simp add: getErrorsByPathSegment_def fold_addErrorByPathSegment split: list.splits)
  moreover have "message (slicedError e) = message e"
    by (simp add: slicedError_def relocatedError_kept)
  ultimately show ?thesis
    using groupKey_iff [of e key] slicedError_path [of e] by simp
qed

text \<open>
  The amended C1 at the input of the specification's example: the keys are 1 and 2.
\<close>

theorem getErrorsByPathSegment_second_segment_witness:
  "getErrorsByPathSegment
     [mkError ''e1'' (Some [Name ''x'', Index 1]),
      mkError ''e2'' (Some [Name ''y'']),
      mkError ''e3'' (Some [Name ''x'', Index 2])] ''1''
   = Some [mkError ''e1'' (Some [Index 1])] \<and>
   getErrorsByPathSegment
     [mkError ''e1'' (Some [Name ''x'', Index 1]),
      mkError ''e2'' (Some [Name ''y'']),
      mkError ''e3'' (Some [Name ''x'', Index 2])] ''2''
   = Some [mkError ''e3'' (Some [Index 2])]"
  using getErrorsByPathSegment_second_segment
      [of "[mkError ''e1'' (Some [Name ''x'', Index 1]),
            mkError ''e2'' (Some [Name ''y'']),
            mkError ''e3'' (Some [Name ''x'', Index 2])]" "''1''"
          "mkError ''e1'' (Some [Name ''x'', Index 1])"]
    getErrorsByPathSegment_second_segment
      [of "[mkError ''e1'' (Some [Name ''x'', Index 1]),
            mkError ''e2'' (Some [Name ''y'']),
            mkError ''e3'' (Some [Name ''x'', Index 2])]" "''2''"
          "mkError ''e3'' (Some [Name ''x'', Index 2])"]
  by (simp add: groupKey_def decimal.simps digit_def slicedError_def relocatedError_def
        new_GraphQLError_def Let_def blameNodes_def)

text \<open>
  C1 as stated fails at the input of its own example: the result is not the record with
  the single key x.
\<close>

theorem getErrorsByPathSegment_first_segment_counterexample:
  "getErrorsByPathSegment
     [mkError ''e1'' (Some [Name ''x'', Index 1]),
      mkError ''e2'' (Some [Name ''y'']),
      mkError ''e3'' (Some [Name ''x'', Index 2])]
   \<noteq> [''x'' \<mapsto> [mkError ''e1'' (Some [Index 1]), mkError ''e3'' (Some [Index 2])]]"
proof
  assume eq: "getErrorsByPathSegment
     [mkError ''e1'' (Some [Name ''x'', Index 1]),
      mkError ''e2'' (Some [Name ''y'']),
      mkError ''e3'' (Some [Name ''x'', Index 2])]
   = [''x'' \<mapsto> [mkError ''e1'' (Some [Index 1]), mkError ''e3'' (Some [Index 2])]]"
  have "getErrorsByPathSegment
     [mkError ''e1'' (Some [Name ''x'', Index 1]),
      mkError ''e2'' (Some [Name ''y'']),
      mkError ''e3'' (Some [Name ''x'', Index 2])] ''x'' = None"
    by (simp add: getErrorsByPathSegment_def addErrorByPathSegment_def decimal.simps digit_def)
  with eq show False by simp
qed

subsection \<open>Side-channel attach and retrieve\<close>

text \<open>
  Claim C9. \<^verbatim>\<open>setErrors\<close> succeeds on every object; whenever it succeeds, the
  visible fields of the result are unchanged, the error list is attached, and a
  subsequent \<^verbatim>\<open>getErrors\<close> for a field name returns exactly the errors of the
  attached list, in order, that have no path or whose leading path segment is that
  field name.
\<close>

theorem setErrors_getErrors:
  "(\<exists>res'. setErrors (RObject fs slot) errors = Inr res') \<and>
   (\<forall>res res'. setErrors res errors = Inr res' \<longrightarrow>
      visibleFields res' = visibleFields res \<and>
      errorSlot res' = Some errors \<and>
      getErrors res' fieldName =
        Some (filter (\<lambda>e. path e = None \<or> (\<exists>rest. path e = Some (Name fieldName # rest)))
                errors))"
proof -
  have "visibleFields res' = visibleFields res \<and> errorSlot res' = Some errors \<and>
      getErrors res' fieldName =
        Some (filter (\<lambda>e. path e = None \<or> (\<exists>rest. path e = Some (Name fieldName # rest)))
                errors)"
    if "setErrors res errors = Inr res'" for res res'
    using that
    by (cases res) (auto simp: getErrors_def getErrors_loop_filter appliesTo_iff)
  then show ?thesis by auto
qed

text \<open>
  C9 at a concrete object: the errors with an empty path and with another leading segment
  are left out.
\<close>

theorem setErrors_getErrors_witness:
  "setErrors (RObject [''id'' \<mapsto> (7::nat)] None)
      [mkError ''e1'' (Some [Name ''a'', Index 1]), mkError ''e2'' None,
       mkError ''e3'' (Some [Name ''b'']), mkError ''e4'' (Some []),
       mkError ''e5'' (Some [Name ''a''])]
     = Inr (RObject [''id'' \<mapsto> 7]
         (Some [mkError ''e1'' (Some [Name ''a'', Index 1]), mkError ''e2'' None,
       mkError ''e3'' (Some [Name ''b'']), mkError ''e4'' (Some []),
       mkError ''e5'' (Some [Name ''a''])])) \<and>
   getErrors (RObject [''id'' \<mapsto> (7::nat)]
         (Some [mkError ''e1'' (Some [Name ''a'', Index 1]), mkError ''e2'' None,
       mkError ''e3'' (Some [Name ''b'']), mkError ''e4'' (Some []),
       mkError ''e5'' (Some [Name ''a''])])) ''a''
     = Some [mkError ''e1'' (Some [Name ''a'', Index 1]), mkError ''e2'' None,
         mkError ''e5'' (Some [Name ''a''])]"
proof -
  let ?errors = "[mkError ''e1'' (Some [Name ''a'', Index 1]), mkError ''e2'' None,
       mkError ''e3'' (Some [Name ''b'']), mkError ''e4'' (Some []),
       mkError ''e5'' (Some [Name ''a''])]"
  have set: "setErrors (RObject [''id'' \<mapsto> (7::nat)] None) ?errors
      = Inr (RObject [''id'' \<mapsto> 7] (Some ?errors))"
    by simp
  with setErrors_getErrors [of "[''id'' \<mapsto> (7::nat)]" None ?errors "''a''"]
  have "getErrors (RObject [''id'' \<mapsto> (7::nat)] (Some ?errors)) ''a'' =
      Some (filter (\<lambda>e. path e = None \<or> (\<exists>rest. path e = Some (Name ''a'' # rest))) ?errors)"
    by blast
  with set show ?thesis by simp
qed

text \<open>
  Claim C10. \<^verbatim>\<open>getErrors\<close> returns \<^verbatim>\<open>null\<close> for \<^verbatim>\<open>undefined\<close>, for
  \<^verbatim>\<open>null\<close> and for every result with no error list attached; it returns the empty
  list exactly when a list is attached and each of its errors has a path whose leading
  segment is not the field name.
\<close>

theorem getErrors_null:
  "getErrors RUndefined fieldName = None \<and>
   getErrors RNull fieldName = None \<and>
   (errorSlot res = None \<longrightarrow> getErrors res fieldName = None) \<and>
   (getErrors res fieldName = Some [] \<longleftrightarrow>
      (\<exists>errors. errorSlot res = Some errors \<and>
         (\<forall>e \<in> set errors. path e \<noteq> None \<and>
            \<not> (\<exists>rest. path e = Some (Name fieldName # rest)))))"
  by (auto simp: getErrors_def getErrors_loop_filter appliesTo_iff filter_empty_conv
      split: option.splits)

text \<open>C10 at concrete results.\<close>

theorem getErrors_null_witness:
  "getErrors (RObject [''id'' \<mapsto> (7::nat)] (None :: (unit, unit, unit, unit) GraphQLError list option)) ''a'' = None \<and>
   getErrors (RPrimitive (7::nat)) ''a'' = (None :: (unit, unit, unit, unit) GraphQLError list option) \<and>
   getErrors (RObject [''id'' \<mapsto> (7::nat)]
      (Some [mkError ''e3'' (Some [Name ''b'']), mkError ''e4'' (Some [])])) ''a'' = Some [] \<and>
   getErrors (RObject [''id'' \<mapsto> (7::nat)] (Some [mkError ''e2'' None])) ''a''
     = Some [mkError ''e2'' None]"
  using getErrors_null [of "''a''" "RObject [''id'' \<mapsto> (7::nat)] (None :: (unit, unit, unit, unit) GraphQLError list option)"]
    getErrors_null [of "''a''" "RPrimitive (7::nat) :: (nat, (unit, unit, unit, unit) GraphQLError) result"]
    getErrors_null [of "''a''" "RObject [''id'' \<mapsto> (7::nat)]
      (Some [mkError ''e3'' (Some [Name ''b'']), mkError ''e4'' (Some [])])"]
  by (simp add: getErrors_def appliesTo_def)

section \<open>Properties of the type candidates\<close>

subsection \<open>Auxiliary facts: operation type names\<close>

lemma fold_setOperationTypeName:
  "fold setOperationTypeName ots names opr =
     (case filter (\<lambda>ot. operation ot = opr) (rev ots) of
        [] \<Rightarrow> names opr
      | ot # _ \<Rightarrow> Some (type_name_value ot))"
proof (induction ots arbitrary: names)
  case Nil
  show ?case by simp
next
  case (Cons ot ots)
  show ?case
    using Cons.IH [of "setOperationTypeName ot names"]
    by (cases "filter (\<lambda>ot. operation ot = opr) (rev ots)")
      (auto simp: setOperationTypeName_def)
qed

lemma lastAssigned_Nil: "lastAssigned opr [] = None"
  by (simp add: lastAssigned_def assignments_def)

lemma lastAssigned_Cons:
  "lastAssigned opr (node # ns) =
     (case lastAssigned opr ns of
        Some n \<Rightarrow> Some n
      | None \<Rightarrow> lastAssigned opr [node])"
  by (cases "filter (\<lambda>ot. operation ot = opr) (rev (assignments ns))")
    (auto simp: lastAssigned_def assignments_def)

lemma setNodeOperationTypeNames_apply:
  "setNodeOperationTypeNames node names opr =
     (case lastAssigned opr [node] of Some n \<Rightarrow> Some n | None \<Rightarrow> names opr)"
  by (cases "operationTypes node")
    (auto simp: setNodeOperationTypeNames_def lastAssigned_def assignments_def
       fold_setOperationTypeName split: list.splits)

lemma fold_setNodeOperationTypeNames:
  "fold setNodeOperationTypeNames ns names opr =
     (case lastAssigned opr ns of Some n \<Rightarrow> Some n | None \<Rightarrow> names opr)"
proof (induction ns arbitrary: names)
  case Nil
  show ?case by (simp add: lastAssigned_Nil)
next
  case (Cons node ns)
  show ?case
    using Cons.IH [of "setNodeOperationTypeNames node names"]
    by (simp add: lastAssigned_Cons [of opr node ns] setNodeOperationTypeNames_apply
        split: option.splits)
qed

subsection \<open>Auxiliary facts: the type map\<close>

lemma buildTypeMap_loop_other:
  "buildTypeMap_loop mc iss si otn otc mt opts tc tm0 = Inr tm \<Longrightarrow> n \<notin> fst ` set tc
     \<Longrightarrow> tm n = tm0 n"
proof (induction tc arbitrary: tm0)
  case Nil
  then show ?case by simp
next
  case (Cons entry tc)
  obtain n' cs' where entry: "entry = (n', cs')" by (cases entry)
  from Cons.prems obtain ty where
    ty: "composeType mc iss si otn otc mt opts n' cs' = Inr ty" and
    rest: "buildTypeMap_loop mc iss si otn otc mt opts tc (tm0(n' \<mapsto> ty)) = Inr tm"
    by (auto simp: entry split: sum.splits)
  from Cons.prems have "n \<noteq> n'" "n \<notin> fst ` set tc" by (auto simp: entry)
  with Cons.IH [OF rest] show ?case by simp
qed

lemma buildTypeMap_loop_entry:
  "buildTypeMap_loop mc iss si otn otc mt opts tc tm0 = Inr tm \<Longrightarrow> distinct (map fst tc)
     \<Longrightarrow> (n, cs) \<in> set tc
     \<Longrightarrow> \<exists>ty. composeType mc iss si otn otc mt opts n cs = Inr ty \<and> tm n = Some ty"
proof (induction tc arbitrary: tm0)
  case Nil
  then show ?case by simp
next
  case (Cons entry tc)
  obtain n' cs' where entry: "entry = (n', cs')" by (cases entry)
  from Cons.prems(1) obtain ty where
    ty: "composeType mc iss si otn otc mt opts n' cs' = Inr ty" and
    rest: "buildTypeMap_loop mc iss si otn otc mt opts tc (tm0(n' \<mapsto> ty)) = Inr tm"
    by (auto simp: entry split: sum.splits)
  from Cons.prems(2) have dist: "distinct (map fst tc)" and fresh: "n' \<notin> fst ` set tc"
    by (auto simp: entry)
  show ?case
  proof (cases "(n, cs) \<in> set tc")
    case True
    from Cons.IH [OF rest dist True] show ?thesis .
  next
    case False
    with Cons.prems(3) have same: "n = n'" "cs = cs'" by (auto simp: entry)
    from buildTypeMap_loop_other [OF rest fresh] have "tm n' = Some ty" by simp
    with ty same show ?thesis by simp
  qed
qed

lemma buildTypeMap_loop_total:
  "\<forall>(n, cs) \<in> set tc. \<exists>ty. composeType mc iss si otn otc mt opts n cs = Inr ty
     \<Longrightarrow> \<exists>tm. buildTypeMap_loop mc iss si otn otc mt opts tc tm0 = Inr tm"
proof (induction tc arbitrary: tm0)
  case Nil
  show ?case by simp
next
  case (Cons entry tc)
  obtain n' cs' where entry: "entry = (n', cs')" by (cases entry)
  from Cons.prems obtain ty where
    ty: "composeType mc iss si otn otc mt opts n' cs' = Inr ty"
    by (auto simp: entry)
  from Cons.prems have "\<forall>(n, cs) \<in> set tc. \<exists>ty. composeType mc iss si otn otc mt opts n cs = Inr ty"
    by simp
  from Cons.IH [OF this] obtain tm where
    "buildTypeMap_loop mc iss si otn otc mt opts tc (tm0(n' \<mapsto> ty)) = Inr tm"
    by blast
  with ty have "buildTypeMap_loop mc iss si otn otc mt opts (entry # tc) tm0 = Inr tm"
    by (simp add: entry)
  then show ?case by blast
qed

lemma reduce_snoc:
  "xs \<noteq> [] \<Longrightarrow> \<exists>prev. reduce f xs = Inr prev \<and> reduce f (xs @ [x]) = Inr (f prev x)"
  by (cases xs) simp_all

lemma selectType_None: "cs \<noteq> [] \<Longrightarrow> selectType None cs = Inr (ctype (last cs))"
  by (simp add: selectType_def lastCandidate_def)

lemma selectType_single: "selectType otc [c] = Inr (ctype c)"
  by (cases otc)
    (simp_all add: selectType_def lastCandidate_def onTypeConflictToCandidateSelector_def)

lemma buildTypeMap_entry:
  "buildTypeMap mc iss tc si otn otc mt opts = Inr tm \<Longrightarrow> distinct (map fst tc)
     \<Longrightarrow> (n, cs) \<in> set tc
     \<Longrightarrow> \<exists>ty. composeType mc iss si otn otc mt opts n cs = Inr ty \<and> tm n = Some ty"
  unfolding buildTypeMap_def by (rule buildTypeMap_loop_entry)

lemma composeType_ok_iff:
  "(\<exists>ty. composeType mc iss si otn otc mt opts n cs = Inr ty) \<longleftrightarrow>
     (if shouldMerge iss si otn mt n cs then \<not> isl (mc n cs opts) else cs \<noteq> [])"
  by (cases otc; cases cs; cases "mc n cs opts")
    (simp_all add: composeType_def selectType_def lastCandidate_def
      onTypeConflictToCandidateSelector_def)

lemma buildTypeMap_returns:
  assumes "\<forall>(n, cs) \<in> set tc.
             if shouldMerge iss si otn mt n cs then \<not> isl (mc n cs opts) else cs \<noteq> []"
  shows "\<exists>tm. buildTypeMap mc iss tc si otn otc mt opts = Inr tm"
proof -
  from assms have "\<forall>(n, cs) \<in> set tc. \<exists>ty. composeType mc iss si otn otc mt opts n cs = Inr ty"
    by (simp add: composeType_ok_iff)
  then show ?thesis
    unfolding buildTypeMap_def by (rule buildTypeMap_loop_total)
qed

lemma shouldMerge_root:
  "otn Query = Some n \<or> otn Mutation = Some n \<or> otn Subscription = Some n
     \<Longrightarrow> shouldMerge iss si otn mt n cs"
  by (auto simp: shouldMerge_def)

subsection \<open>Root operation type names\<close>

text \<open>
  Claim C3, as amended. \<^verbatim>\<open>setOperationTypeNames\<close> reads the definition node
  first and the extension nodes after it, and the last assignment read wins: the name
  recorded for an operation is the one that the extension nodes assign to it last; the
  name that the definition node assigns (last) is recorded only when no extension node
  assigns that operation; and the name supplied by the caller is kept when no node
  assigns it.
\<close>

theorem setOperationTypeNames_extensions_override:
  "setOperationTypeNames defs names opr =
     (case lastAssigned opr (schemaExtensions defs) of
        Some n \<Rightarrow> Some n
      | None \<Rightarrow>
          (case schemaDef defs of
             None \<Rightarrow> names opr
           | Some d \<Rightarrow>
               (case lastAssigned opr [d] of
                  Some n \<Rightarrow> Some n
                | None \<Rightarrow> names opr)))"
proof (cases "schemaDef defs")
  case None
  then show ?thesis
    by (simp add: setOperationTypeNames_def fold_setNodeOperationTypeNames
        split: option.splits)
next
  case (Some d)
  then show ?thesis
    by (simp add: setOperationTypeNames_def fold_setNodeOperationTypeNames
        setNodeOperationTypeNames_apply lastAssigned_Cons [of opr d "schemaExtensions defs"]
        split: option.splits)
qed

text \<open>
  The amended C3 at a definition node and three extension nodes: the last extension
  decides the query type, the definition the mutation type, the caller the subscription
  type.
\<close>

theorem setOperationTypeNames_extensions_override_witness:
  "setOperationTypeNames
     \<lparr>schemaDef = Some (opNode [opType Query ''RootQuery'', opType Mutation ''RootMutation'']),
      schemaExtensions = [opNode [opType Query ''FirstQuery''], \<lparr>operationTypes = None\<rparr>,
                          opNode [opType Query ''SecondQuery'']]\<rparr>
     defaultNames Query = Some ''SecondQuery'' \<and>
   setOperationTypeNames
     \<lparr>schemaDef = Some (opNode [opType Query ''RootQuery'', opType Mutation ''RootMutation'']),
      schemaExtensions = [opNode [opType Query ''FirstQuery''], \<lparr>operationTypes = None\<rparr>,
                          opNode [opType Query ''SecondQuery'']]\<rparr>
     defaultNames Mutation = Some ''RootMutation'' \<and>
   setOperationTypeNames
     \<lparr>schemaDef = Some (opNode [opType Query ''RootQuery'', opType Mutation ''RootMutation'']),
      schemaExtensions = [opNode [opType Query ''FirstQuery''], \<lparr>operationTypes = None\<rparr>,
                          opNode [opType Query ''SecondQuery'']]\<rparr>
     defaultNames Subscription = Some ''Subscription''"
  by (simp add: setOperationTypeNames_extensions_override lastAssigned_def assignments_def)

text \<open>
  C3 as stated fails: a definition node and an extension node assign different names to
  the query operation, and the name of the definition node is not the one recorded.
\<close>

theorem setOperationTypeNames_definition_first_counterexample:
  "setOperationTypeNames
     \<lparr>schemaDef = Some (opNode [opType Query ''RootQuery'']),
      schemaExtensions = [opNode [opType Query ''ExtQuery'']]\<rparr>
     defaultNames Query \<noteq> Some ''RootQuery''"
  by (simp add: setOperationTypeNames_def setNodeOperationTypeNames_def setOperationTypeName_def)

subsection \<open>Merging the root operation types\<close>

text \<open>
  Claim C4. For a type name of the table that is the query, mutation or subscription
  type name, the value that \<^verbatim>\<open>buildTypeMap\<close> computes is the result of
  \<^verbatim>\<open>mergeCandidates\<close> on all the candidates of the name, whatever the merge policy,
  the stitching info and the conflict callback are: every type map that
  \<^verbatim>\<open>buildTypeMap\<close> returns holds that merged type under the name, and
  \<^verbatim>\<open>buildTypeMap\<close> does return one when no merge of the table throws and every
  candidate list left to selection is non-empty.
\<close>

theorem buildTypeMap_root_merged:
  assumes "distinct (map fst tc)" and "(n, cs) \<in> set tc"
    and "otn Query = Some n \<or> otn Mutation = Some n \<or> otn Subscription = Some n"
  shows
    "composeType mc iss si otn otc mt opts n cs = mc n cs opts \<and>
     (\<forall>tm. buildTypeMap mc iss tc si otn otc mt opts = Inr tm \<longrightarrow>
        (\<exists>ty. mc n cs opts = Inr ty \<and> tm n = Some ty)) \<and>
     ((\<forall>(n', cs') \<in> set tc.
          if shouldMerge iss si otn mt n' cs' then \<not> isl (mc n' cs' opts) else cs' \<noteq> []) \<longrightarrow>
        (\<exists>tm ty. buildTypeMap mc iss tc si otn otc mt opts = Inr tm \<and>
           mc n cs opts = Inr ty \<and> tm n = Some ty))"
proof -
  have merged: "composeType mc iss si otn otc mt opts n cs = mc n cs opts"
    using assms(3) by (simp add: composeType_def shouldMerge_root)
  have entry: "\<exists>ty. mc n cs opts = Inr ty \<and> tm n = Some ty"
    if "buildTypeMap mc iss tc si otn otc mt opts = Inr tm" for tm
    using buildTypeMap_entry [OF that assms(1,2)] merged by simp
  have "\<exists>tm ty. buildTypeMap mc iss tc si otn otc mt opts = Inr tm \<and>
           mc n cs opts = Inr ty \<and> tm n = Some ty"
    if "\<forall>(n', cs') \<in> set tc.
          if shouldMerge iss si otn mt n' cs' then \<not> isl (mc n' cs' opts) else cs' \<noteq> []"
    using buildTypeMap_returns [where mc = mc and otc = otc, OF that] entry by blast
  with merged entry show ?thesis by blast
qed

text \<open>
  C4 at the sample table, with the policy \<^verbatim>\<open>false\<close> and a callback that keeps the
  left type: the query type is merged all the same.
\<close>

theorem buildTypeMap_root_merged_witness:
  "\<exists>tm. buildTypeMap mergeToSum (\<lambda>ty. ty = 0) sampleCandidates (None :: unit StitchingInfo option)
       defaultNames (Some (\<lambda>l r info. l)) (MergeBool False) () = Inr tm \<and>
     tm ''Query'' = Some 103"
proof -
  have d: "distinct (map fst sampleCandidates)" by simp
  have m: "(''Query'', [cand 1 ''a'', cand 2 ''b'']) \<in> set sampleCandidates" by simp
  have r: "defaultNames Query = Some ''Query'' \<or> defaultNames Mutation = Some ''Query'' \<or>
      defaultNames Subscription = Some ''Query''" by simp
  have ok: "\<forall>(n', cs') \<in> set sampleCandidates.
      if shouldMerge (\<lambda>ty. ty = 0) (None :: unit StitchingInfo option) defaultNames
           (MergeBool False) n' cs'
      then \<not> isl (mergeToSum n' cs' ()) else cs' \<noteq> []"
    by simp
  have "\<exists>tm ty. buildTypeMap mergeToSum (\<lambda>ty. ty = 0) sampleCandidates
       (None :: unit StitchingInfo option) defaultNames (Some (\<lambda>l r info. l))
       (MergeBool False) () = Inr tm \<and>
     mergeToSum ''Query'' [cand 1 ''a'', cand 2 ''b''] () = Inr ty \<and> tm ''Query'' = Some ty"
    using buildTypeMap_root_merged [where mc = mergeToSum and iss = "\<lambda>ty. ty = 0"
        and si = None and otc = "Some (\<lambda>l r info. l)" and mt = "MergeBool False"
        and opts = "()", OF d m r] ok
    by blast
  then show ?thesis by auto
qed

subsection \<open>Selecting the last candidate\<close>

text \<open>
  Claim C5. Let a type name of the table fall to selection (the merge condition is
  false for it), in a table where no merge throws and every candidate list left to
  selection is non-empty. With no conflict callback, \<^verbatim>\<open>buildTypeMap\<close> returns a
  type map that holds, under the name, the type of the last candidate of the name's
  list. If the list has a single candidate, the type map holds that candidate's type,
  with or without a conflict callback.
\<close>

theorem buildTypeMap_last_candidate:
  assumes "distinct (map fst tc)" and "(n, cs) \<in> set tc"
    and "\<not> shouldMerge iss si otn mt n cs"
    and "\<forall>(n', cs') \<in> set tc.
           if shouldMerge iss si otn mt n' cs' then \<not> isl (mc n' cs' opts) else cs' \<noteq> []"
  shows
    "composeType mc iss si otn None mt opts n cs = Inr (ctype (last cs)) \<and>
     (\<exists>tm. buildTypeMap mc iss tc si otn None mt opts = Inr tm \<and>
        tm n = Some (ctype (last cs))) \<and>
     (\<forall>c. cs = [c] \<longrightarrow>
        (\<exists>tm. buildTypeMap mc iss tc si otn otc mt opts = Inr tm \<and> tm n = Some (ctype c)))"
proof -
  from assms(2,3,4) have ne: "cs \<noteq> []" by auto
  have sel: "composeType mc iss si otn otc' mt opts n cs = selectType otc' cs" for otc'
    using assms(3) by (simp add: composeType_def)
  have last: "composeType mc iss si otn None mt opts n cs = Inr (ctype (last cs))"
    using ne by (simp add: sel selectType_None)
  obtain tm where tm: "buildTypeMap mc iss tc si otn None mt opts = Inr tm"
    using buildTypeMap_returns [where mc = mc and otc = None, OF assms(4)] by blast
  from buildTypeMap_entry [OF tm assms(1,2)] last
  have atn: "tm n = Some (ctype (last cs))" by simp
  have single: "\<exists>tm. buildTypeMap mc iss tc si otn otc mt opts = Inr tm \<and> tm n = Some (ctype c)"
    if "cs = [c]" for c
  proof -
    obtain tm' where tm': "buildTypeMap mc iss tc si otn otc mt opts = Inr tm'"
      using buildTypeMap_returns [where mc = mc and otc = otc, OF assms(4)] by blast
    have "composeType mc iss si otn otc mt opts n cs = selectType otc cs"
      by (rule sel)
    also have "\<dots> = Inr (ctype c)"
      unfolding that by (rule selectType_single)
    finally have "composeType mc iss si otn otc mt opts n cs = Inr (ctype c)" .
    with buildTypeMap_entry [OF tm' assms(1,2)]
    have "tm' n = Some (ctype c)" by auto
    with tm' show ?thesis by blast
  qed
  from last tm atn single show ?thesis by blast
qed

text \<open>
  C5 at the sample table: the last of three candidates without a callback, and the
  single candidate with a callback.
\<close>

theorem buildTypeMap_last_candidate_witness:
  "(\<exists>tm. buildTypeMap mergeToSum (\<lambda>ty. ty = 0) sampleCandidates (None :: unit StitchingInfo option)
       defaultNames None (MergeBool False) () = Inr tm \<and>
     tm ''User'' = Some 5) \<and>
   (\<exists>tm. buildTypeMap mergeToSum (\<lambda>ty. ty = 0) sampleCandidates (None :: unit StitchingInfo option)
       defaultNames (Some (\<lambda>l r info. l)) (MergeBool False) () = Inr tm \<and>
     tm ''Widget'' = Some 6)"
proof -
  have d: "distinct (map fst sampleCandidates)" by simp
  have u: "(''User'', [cand 3 ''a'', cand 4 ''b'', cand 5 ''c'']) \<in> set sampleCandidates"
    by simp
  have w: "(''Widget'', [cand 6 ''b'']) \<in> set sampleCandidates" by simp
  have nu: "\<not> shouldMerge (\<lambda>ty. ty = 0) (None :: unit StitchingInfo option) defaultNames
      (MergeBool False) ''User'' [cand 3 ''a'', cand 4 ''b'', cand 5 ''c'']"
    by (simp add: shouldMerge_def)
  have nw: "\<not> shouldMerge (\<lambda>ty. ty = 0) (None :: unit StitchingInfo option) defaultNames
      (MergeBool False) ''Widget'' [cand 6 ''b'']"
    by (simp add: shouldMerge_def)
  have ok: "\<forall>(n', cs') \<in> set sampleCandidates.
      if shouldMerge (\<lambda>ty. ty = 0) (None :: unit StitchingInfo option) defaultNames
           (MergeBool False) n' cs'
      then \<not> isl (mergeToSum n' cs' ()) else cs' \<noteq> []"
    by simp
  have "\<exists>tm. buildTypeMap mergeToSum (\<lambda>ty. ty = 0) sampleCandidates
       (None :: unit StitchingInfo option) defaultNames None (MergeBool False) () = Inr tm \<and>
     tm ''User'' = Some (ctype (last [cand 3 ''a'', cand 4 ''b'', cand 5 ''c'']))"
    using buildTypeMap_last_candidate [where mc = mergeToSum and opts = "()" and otc = None,
        OF d u nu ok]
    by blast
  moreover have "\<exists>tm. buildTypeMap mergeToSum (\<lambda>ty. ty = 0) sampleCandidates
       (None :: unit StitchingInfo option) defaultNames (Some (\<lambda>l r info. l))
       (MergeBool False) () = Inr tm \<and>
     tm ''Widget'' = Some (ctype (cand 6 ''b''))"
    using buildTypeMap_last_candidate [where mc = mergeToSum and opts = "()"
        and otc = "Some (\<lambda>l r info. l)", OF d w nw ok]
    by blast
  ultimately show ?thesis by simp
qed

subsection \<open>Selecting with a conflict callback\<close>

text \<open>
  Claim C6. With a conflict callback the selector reduces the candidate list pairwise
  from the left: a single candidate is returned as it is, and the result for a
  non-empty list extended by one more candidate comes from the result for the list (the
  accumulator) and that candidate. The callback gets the two types and the transformed
  schema of each side; if it returns the accumulator's type the accumulator is kept,
  otherwise if it returns the new candidate's type that candidate is the new
  accumulator, and otherwise the new accumulator carries the returned type, has the
  schema name \<^verbatim>\<open>unknown\<close> and has no subschema and no transformed schema. The type
  selected is the type of the final accumulator.
\<close>

theorem onTypeConflict_reduces_pairwise:
  "onTypeConflictToCandidateSelector f [c] = Inr c \<and>
   (cs \<noteq> [] \<longrightarrow>
      (\<exists>prev. onTypeConflictToCandidateSelector f cs = Inr prev \<and>
         onTypeConflictToCandidateSelector f (cs @ [nxt]) =
           Inr (let ty = f (ctype prev) (ctype nxt)
                           \<lparr>left_schema = transformedSchema prev,
                            right_schema = transformedSchema nxt\<rparr>
                in if ty = ctype prev then prev
                   else if ty = ctype nxt then nxt
                   else \<lparr>ctype = ty, schemaName = Some ''unknown'', subschema = None,
                         transformedSchema = None\<rparr>))) \<and>
   selectType (Some f) cs =
     (case onTypeConflictToCandidateSelector f cs of
        Inl e \<Rightarrow> Inl e
      | Inr winner \<Rightarrow> Inr (ctype winner))"
proof -
  have step: "\<exists>prev. onTypeConflictToCandidateSelector f cs = Inr prev \<and>
         onTypeConflictToCandidateSelector f (cs @ [nxt]) = Inr (conflictStep f prev nxt)"
    if "cs \<noteq> []"
    unfolding onTypeConflictToCandidateSelector_def using that by (rule reduce_snoc)
  have body: "conflictStep f prev nxt =
      (let ty = f (ctype prev) (ctype nxt)
                           \<lparr>left_schema = transformedSchema prev,
                            right_schema = transformedSchema nxt\<rparr>
                in if ty = ctype prev then prev
                   else if ty = ctype nxt then nxt
                   else \<lparr>ctype = ty, schemaName = Some ''unknown'', subschema = None,
                         transformedSchema = None\<rparr>)" for prev
    by (auto simp: conflictStep_def Let_def)
  have single: "onTypeConflictToCandidateSelector f [c] = Inr c"
    by (simp add: onTypeConflictToCandidateSelector_def)
  have sel: "selectType (Some f) cs =
     (case onTypeConflictToCandidateSelector f cs of
        Inl e \<Rightarrow> Inl e
      | Inr winner \<Rightarrow> Inr (ctype winner))"
    by (simp add: selectType_def)
  from step body single sel show ?thesis by metis
qed

text \<open>
  C6 with a callback that returns a type of its own (99) for two types below 10 and
  the larger type otherwise: the replacement made at the second candidate is kept at
  the third, with no schema on its side, and loses to the fourth.
\<close>

theorem onTypeConflict_reduces_pairwise_witness:
  "onTypeConflictToCandidateSelector (\<lambda>l r info. if l < 10 \<and> r < 10 then 99 else max l r)
      [cand 3 ''a'', cand 4 ''b'']
     = Inr \<lparr>ctype = 99, schemaName = Some ''unknown'', subschema = None, transformedSchema = None\<rparr> \<and>
   onTypeConflictToCandidateSelector (\<lambda>l r info. if l < 10 \<and> r < 10 then 99 else max l r)
      [cand 3 ''a'', cand 4 ''b'', cand 5 ''c'']
     = Inr \<lparr>ctype = 99, schemaName = Some ''unknown'', subschema = None, transformedSchema = None\<rparr> \<and>
   onTypeConflictToCandidateSelector (\<lambda>l r info. if l < 10 \<and> r < 10 then 99 else max l r)
      [cand 3 ''a'', cand 4 ''b'', cand 5 ''c'', cand 120 ''d'']
     = Inr (cand 120 ''d'')"
proof -
  let ?f = "\<lambda>(l::nat) (r::nat) (info::string conflictInfo). if l < 10 \<and> r < 10 then 99 else max l r"
  have one: "onTypeConflictToCandidateSelector ?f [cand 3 ''a''] = Inr (cand 3 ''a'')"
    using onTypeConflict_reduces_pairwise [of ?f "cand 3 ''a''" "[]" "cand 3 ''a''"] by simp
  have ne1: "[cand 3 ''a''] \<noteq> []" by simp
  from onTypeConflict_reduces_pairwise [of ?f "cand 3 ''a''" "[cand 3 ''a'']" "cand 4 ''b''"] one
  have two: "onTypeConflictToCandidateSelector ?f [cand 3 ''a'', cand 4 ''b'']
     = Inr \<lparr>ctype = 99, schemaName = Some ''unknown'', subschema = None, transformedSchema = None\<rparr>"
    by simp
  from onTypeConflict_reduces_pairwise [of ?f "cand 3 ''a''" "[cand 3 ''a'', cand 4 ''b'']" "cand 5 ''c''"] two
  have three: "onTypeConflictToCandidateSelector ?f [cand 3 ''a'', cand 4 ''b'', cand 5 ''c'']
     = Inr \<lparr>ctype = 99, schemaName = Some ''unknown'', subschema = None, transformedSchema = None\<rparr>"
    by simp
  from onTypeConflict_reduces_pairwise [of ?f "cand 3 ''a''" "[cand 3 ''a'', cand 4 ''b'', cand 5 ''c'']" "cand 120 ''d''"] three
  have four: "onTypeConflictToCandidateSelector ?f [cand 3 ''a'', cand 4 ''b'', cand 5 ''c'', cand 120 ''d'']
     = Inr (cand 120 ''d'')"
    by simp
  from two three four show ?thesis by simp
qed

subsection \<open>The policy merge all\<close>

text \<open>
  Claim C7. Under the policy \<^verbatim>\<open>mergeTypes === true\<close>, for a type name that is no root
  operation type name and has no entry in the merged types of the stitching info, the
  merge condition holds if and only if no candidate of the name is a specified scalar
  type: the value computed for the name is then the result of \<^verbatim>\<open>mergeCandidates\<close>,
  and with at least one specified scalar among the candidates it is the selected type;
  every type map that \<^verbatim>\<open>buildTypeMap\<close> returns holds that value under the name.
\<close>

theorem buildTypeMap_merge_all:
  assumes "otn Query \<noteq> Some n" and "otn Mutation \<noteq> Some n" and "otn Subscription \<noteq> Some n"
    and "case si of None \<Rightarrow> True | Some info \<Rightarrow> mergedTypes info n = None"
  shows
    "(shouldMerge iss si otn (MergeBool True) n cs \<longleftrightarrow> (\<forall>c \<in> set cs. \<not> iss (ctype c))) \<and>
     composeType mc iss si otn otc (MergeBool True) opts n cs =
       (if \<exists>c \<in> set cs. iss (ctype c) then selectType otc cs else mc n cs opts) \<and>
     (\<forall>tc tm. distinct (map fst tc) \<longrightarrow> (n, cs) \<in> set tc \<longrightarrow>
        buildTypeMap mc iss tc si otn otc (MergeBool True) opts = Inr tm \<longrightarrow>
        (\<exists>ty. tm n = Some ty \<and>
           (if \<exists>c \<in> set cs. iss (ctype c) then selectType otc cs else mc n cs opts) = Inr ty))"
proof -
  have cond: "shouldMerge iss si otn (MergeBool True) n cs \<longleftrightarrow> (\<forall>c \<in> set cs. \<not> iss (ctype c))"
    using assms by (auto simp: shouldMerge_def list_ex_iff split: option.splits)
  then have comp: "composeType mc iss si otn otc (MergeBool True) opts n cs =
       (if \<exists>c \<in> set cs. iss (ctype c) then selectType otc cs else mc n cs opts)"
    by (auto simp: composeType_def)
  have "\<exists>ty. tm n = Some ty \<and>
           (if \<exists>c \<in> set cs. iss (ctype c) then selectType otc cs else mc n cs opts) = Inr ty"
    if "distinct (map fst tc)" "(n, cs) \<in> set tc"
       "buildTypeMap mc iss tc si otn otc (MergeBool True) opts = Inr tm" for tc tm
    using buildTypeMap_entry [OF that(3,1,2)] unfolding comp by blast
  with cond comp show ?thesis by blast
qed

text \<open>
  C7 at the sample table: the three candidates of User are merged, and of the two
  built-in scalar candidates of String the last is selected.
\<close>

theorem buildTypeMap_merge_all_witness:
  "\<exists>tm. buildTypeMap mergeToSum (\<lambda>ty. ty = 0) sampleCandidates (None :: unit StitchingInfo option)
       defaultNames None (MergeBool True) () = Inr tm \<and>
     tm ''User'' = Some 112 \<and> tm ''String'' = Some 0"
proof -
  let ?tm = "[''Query'' \<mapsto> 103, ''User'' \<mapsto> 112, ''Widget'' \<mapsto> 106, ''String'' \<mapsto> (0::nat)]"
  have run: "buildTypeMap mergeToSum (\<lambda>ty. ty = 0) sampleCandidates (None :: unit StitchingInfo option)
       defaultNames None (MergeBool True) () = Inr ?tm"
    by (simp add: buildTypeMap_def composeType_def shouldMerge_def selectType_def
        lastCandidate_def)
  have d: "distinct (map fst sampleCandidates)" by simp
  have u: "(''User'', [cand 3 ''a'', cand 4 ''b'', cand 5 ''c'']) \<in> set sampleCandidates"
    by simp
  have s: "(''String'', [cand 0 ''a'', cand 0 ''b'']) \<in> set sampleCandidates" by simp
  have nr: "defaultNames Query \<noteq> Some ''User''" "defaultNames Mutation \<noteq> Some ''User''"
    "defaultNames Subscription \<noteq> Some ''User''"
    "defaultNames Query \<noteq> Some ''String''" "defaultNames Mutation \<noteq> Some ''String''"
    "defaultNames Subscription \<noteq> Some ''String''"
    by simp_all
  have si: "case (None :: unit StitchingInfo option) of None \<Rightarrow> True
      | Some info \<Rightarrow> mergedTypes info ''User'' = None"
    "case (None :: unit StitchingInfo option) of None \<Rightarrow> True
      | Some info \<Rightarrow> mergedTypes info ''String'' = None"
    by simp_all
  have "\<exists>ty. tm ''User'' = Some ty \<and>
      (if \<exists>c \<in> set [cand 3 ''a'', cand 4 ''b'', cand 5 ''c'']. ctype c = 0
       then selectType None [cand 3 ''a'', cand 4 ''b'', cand 5 ''c'']
       else mergeToSum ''User'' [cand 3 ''a'', cand 4 ''b'', cand 5 ''c''] ()) = Inr ty"
    if "buildTypeMap mergeToSum (\<lambda>ty. ty = 0) sampleCandidates
       (None :: unit StitchingInfo option) defaultNames None (MergeBool True) () = Inr tm" for tm
    using buildTypeMap_merge_all [where mc = mergeToSum and iss = "\<lambda>ty. ty = 0"
        and otc = None and opts = "()" and cs = "[cand 3 ''a'', cand 4 ''b'', cand 5 ''c'']",
        OF nr(1,2,3) si(1)] d u that
    by blast
  from this [OF run] have user: "?tm ''User'' = Some 112"
    by (simp del: fun_upd_apply)
  have "\<exists>ty. tm ''String'' = Some ty \<and>
      (if \<exists>c \<in> set [cand 0 ''a'', cand 0 ''b'']. ctype c = 0
       then selectType None [cand 0 ''a'', cand 0 ''b'']
       else mergeToSum ''String'' [cand 0 ''a'', cand 0 ''b''] ()) = Inr ty"
    if "buildTypeMap mergeToSum (\<lambda>ty. ty = 0) sampleCandidates
       (None :: unit StitchingInfo option) defaultNames None (MergeBool True) () = Inr tm" for tm
    using buildTypeMap_merge_all [where mc = mergeToSum and iss = "\<lambda>ty. ty = 0"
        and otc = None and opts = "()" and cs = "[cand 0 ''a'', cand 0 ''b'']",
        OF nr(4,5,6) si(2)] d s that
    by blast
  from this [OF run] have string: "?tm ''String'' = Some 0"
    by (simp del: fun_upd_apply add: selectType_def lastCandidate_def)
  from run user string show ?thesis by blast
qed

section \<open>Properties of the WrapType transform\<close>

text \<open>
  Claim C8. For every outer type name, inner type name and field name, and whatever
  \<^verbatim>\<open>WrapFields\<close> is, each of the three methods of the \<^verbatim>\<open>WrapType\<close> transform is
  the same function, return value and effect on the state, as the method of that name
  of the transform \<^verbatim>\<open>new WrapFields(outerTypeName, [fieldName], [innerTypeName])\<close>.
\<close>

theorem WrapType_delegates_to_WrapFields:
  "WrapType_transformSchema (new_WrapType WrapFields outerTypeName innerTypeName fieldName) =
     transformSchema (WrapFields outerTypeName [fieldName] [innerTypeName]) \<and>
   WrapType_transformRequest (new_WrapType WrapFields outerTypeName innerTypeName fieldName) =
     transformRequest (WrapFields outerTypeName [fieldName] [innerTypeName]) \<and>
   WrapType_transformResult (new_WrapType WrapFields outerTypeName innerTypeName fieldName) =
     transformResult (WrapFields outerTypeName [fieldName] [innerTypeName])"
  by (simp add: fun_eq_iff new_WrapType_def WrapType_transformSchema_def
      WrapType_transformRequest_def WrapType_transformResult_def)

end
